theory Spec2Isabelle
  imports Main
begin

section \<open>Data model (common/models.py)\<close>

text \<open>
  A calendar date is its day number (the proleptic ordinal of Python's \<open>date\<close>): comparing
  two dates is comparing their day numbers.  A \<open>DecimalField(max_digits=10,
  decimal_places=7)\<close> is the value scaled by \<open>10^7\<close>; it is falsy exactly when it is zero.
  A timestamp (the database's \<open>Now()\<close>) counts microseconds on the same time line.
  Foreign keys hold the primary key of the row they point to, and a table is the list of
  its rows in storage order.
\<close>

type_synonym date = int
type_synonym datetime = int
type_synonym decimal = int
type_synonym pk = nat

record PostalFacility =
  postal_facility_id :: pk
  pf_reference_code :: string
  pf_latitude :: "decimal option"
  pf_longitude :: "decimal option"

record PostalFacilityIdentity =
  postal_facility_identity_id :: pk
  pfi_postal_facility :: pk
  pfi_effective_from_date :: date
  pfi_effective_to_date :: "date option"
  facility_name :: string
  facility_type :: string
  is_operational :: bool
  pfi_latitude :: "decimal option"
  pfi_longitude :: "decimal option"

record AdministrativeUnit =
  administrative_unit_id :: pk
  au_reference_code :: string

record AdministrativeUnitIdentity =
  administrative_unit_identity_id :: pk
  aui_administrative_unit :: pk
  parent_administrative_unit :: "pk option"
  aui_effective_from_date :: date
  aui_effective_to_date :: "date option"
  unit_name :: string
  unit_type :: string

record AdministrativeUnitResponsibility =
  administrative_unit_responsibility_id :: pk
  aur_administrative_unit :: pk
  aur_group :: pk
  is_active :: bool

record JurisdictionalAffiliation =
  jurisdictional_affiliation_id :: pk
  ja_postal_facility_identity :: pk
  ja_administrative_unit :: pk
  ja_effective_from_date :: date
  ja_effective_to_date :: "date option"
  affiliation_source :: string

record Postmark =
  postmark_id :: pk
  pm_postal_facility_identity :: pk
  postmark_key :: string

record database =
  PostalFacilities :: "PostalFacility list"
  PostalFacilityIdentities :: "PostalFacilityIdentity list"
  AdministrativeUnits :: "AdministrativeUnit list"
  AdministrativeUnitIdentities :: "AdministrativeUnitIdentity list"
  AdministrativeUnitResponsibilities :: "AdministrativeUnitResponsibility list"
  JurisdictionalAffiliations :: "JurisdictionalAffiliation list"
  Postmarks :: "Postmark list"

section \<open>Query sets\<close>

text \<open>
  \<open>QuerySet.first()\<close> returns the first row of an ordered query set, or \<open>None\<close> when
  the query set is empty; it never raises.
\<close>

definition qs_first :: "'a list \<Rightarrow> 'a option" where
  "qs_first xs = (case xs of [] \<Rightarrow> None | x # _ \<Rightarrow> Some x)"

text \<open>
  \<open>PostalFacilityIdentity.Meta.ordering = ['postal_facility', 'effective_from_date']\<close>:
  \<open>ORDER BY\<close> two ascending keys is a stable sort by the minor key followed by a stable
  sort by the major key.  Rows that agree on both keys come in an order the database
  chooses; the model keeps their storage order.
\<close>

definition pfi_ordering :: "PostalFacilityIdentity list \<Rightarrow> PostalFacilityIdentity list" where
  "pfi_ordering rows = sort_key pfi_postal_facility (sort_key pfi_effective_from_date rows)"

text \<open>
  \<open>AdministrativeUnitIdentity.Meta.ordering = ['administrative_unit',
  '-effective_from_date']\<close>: the minor key is descending.
\<close>

definition aui_ordering ::
  "AdministrativeUnitIdentity list \<Rightarrow> AdministrativeUnitIdentity list" where
  "aui_ordering rows =
     sort_key aui_administrative_unit (sort_key (\<lambda>i. - aui_effective_from_date i) rows)"

text \<open>The related managers \<open>facility.identities\<close> and \<open>unit.identities\<close>.\<close>

definition pf_identities :: "database \<Rightarrow> PostalFacility \<Rightarrow> PostalFacilityIdentity list" where
  "pf_identities db self =
     filter (\<lambda>i. pfi_postal_facility i = postal_facility_id self) (PostalFacilityIdentities db)"

definition au_identities ::
  "database \<Rightarrow> AdministrativeUnit \<Rightarrow> AdministrativeUnitIdentity list" where
  "au_identities db self =
     filter (\<lambda>i. aui_administrative_unit i = administrative_unit_id self)
       (AdministrativeUnitIdentities db)"

section \<open>Identity resolution\<close>

definition pf_get_current_identity ::
  "database \<Rightarrow> PostalFacility \<Rightarrow> PostalFacilityIdentity option" where
  "pf_get_current_identity db self =
     qs_first (pfi_ordering
       (filter (\<lambda>i. pfi_effective_to_date i = None) (pf_identities db self)))"

definition pf_get_identity_at_date ::
  "database \<Rightarrow> PostalFacility \<Rightarrow> date \<Rightarrow> PostalFacilityIdentity option" where
  "pf_get_identity_at_date db self target_date =
     qs_first (pfi_ordering
       (filter (\<lambda>i. pfi_effective_from_date i \<le> target_date \<and>
                    (case pfi_effective_to_date i of None \<Rightarrow> True
                     | Some t \<Rightarrow> t > target_date))
          (pf_identities db self)))"

definition au_get_current_identity ::
  "database \<Rightarrow> AdministrativeUnit \<Rightarrow> AdministrativeUnitIdentity option" where
  "au_get_current_identity db self =
     qs_first (aui_ordering
       (filter (\<lambda>i. aui_effective_to_date i = None) (au_identities db self)))"

definition au_get_identity_at_date ::
  "database \<Rightarrow> AdministrativeUnit \<Rightarrow> date \<Rightarrow> AdministrativeUnitIdentity option" where
  "au_get_identity_at_date db self target_date =
     qs_first (aui_ordering
       (filter (\<lambda>i. aui_effective_from_date i \<le> target_date \<and>
                    (case aui_effective_to_date i of None \<Rightarrow> True
                     | Some t \<Rightarrow> t > target_date))
          (au_identities db self)))"

section \<open>Coordinates\<close>

text \<open>Python truthiness of a nullable decimal: \<open>None\<close> and zero are falsy.\<close>

definition truthy_decimal :: "decimal option \<Rightarrow> bool" where
  "truthy_decimal v = (case v of None \<Rightarrow> False | Some x \<Rightarrow> x \<noteq> 0)"

text \<open>
  \<open>PostalFacilityIdentity.get_coordinates\<close>; the first argument is the row that
  \<open>self.postal_facility\<close> dereferences to.
\<close>

definition get_coordinates ::
  "PostalFacility \<Rightarrow> PostalFacilityIdentity \<Rightarrow> decimal option \<times> decimal option" where
  "get_coordinates postal_facility self =
     (if truthy_decimal (pfi_latitude self) \<and> truthy_decimal (pfi_longitude self)
      then (pfi_latitude self, pfi_longitude self)
      else (pf_latitude postal_facility, pf_longitude postal_facility))"

text \<open>
  \<open>PostalFacilityIdentitySerializer.get_coordinates\<close>: the pair when both members are
  truthy, else \<open>None\<close> (a tuple of two members is itself always truthy).
\<close>

definition serializer_get_coordinates ::
  "PostalFacility \<Rightarrow> PostalFacilityIdentity \<Rightarrow> (decimal \<times> decimal) option" where
  "serializer_get_coordinates postal_facility obj =
     (case get_coordinates postal_facility obj of
        (Some la, Some lo) \<Rightarrow> (if la \<noteq> 0 \<and> lo \<noteq> 0 then Some (la, lo) else None)
      | _ \<Rightarrow> None)"

section \<open>Intervals\<close>

text \<open>
  The effective interval \<open>[from, to)\<close> of the specification: closed on the left, open on
  the right, unbounded when \<open>to\<close> is null.
\<close>

definition in_interval :: "date \<Rightarrow> date option \<Rightarrow> date \<Rightarrow> bool" where
  "in_interval from to d = (from \<le> d \<and> (case to of None \<Rightarrow> True | Some e \<Rightarrow> d < e))"

text \<open>Two intervals overlap when the later of the two starts lies in both.\<close>

definition intervals_overlap :: "date \<Rightarrow> date option \<Rightarrow> date \<Rightarrow> date option \<Rightarrow> bool" where
  "intervals_overlap f1 t1 f2 t2 =
     (in_interval f1 t1 (max f1 f2) \<and> in_interval f2 t2 (max f1 f2))"

definition pfi_non_overlapping :: "PostalFacilityIdentity list \<Rightarrow> bool" where
  "pfi_non_overlapping rows =
     (\<forall>a \<in> set rows. \<forall>b \<in> set rows. a \<noteq> b \<longrightarrow>
        \<not> intervals_overlap (pfi_effective_from_date a) (pfi_effective_to_date a)
            (pfi_effective_from_date b) (pfi_effective_to_date b))"

definition aui_non_overlapping :: "AdministrativeUnitIdentity list \<Rightarrow> bool" where
  "aui_non_overlapping rows =
     (\<forall>a \<in> set rows. \<forall>b \<in> set rows. a \<noteq> b \<longrightarrow>
        \<not> intervals_overlap (aui_effective_from_date a) (aui_effective_to_date a)
            (aui_effective_from_date b) (aui_effective_to_date b))"

section \<open>Jurisdiction resolution\<close>

datatype error = DoesNotExist

text \<open>Dereferencing the foreign key \<open>administrative_unit\<close> loads the row with that key.\<close>

definition administrative_unit_by_pk :: "database \<Rightarrow> pk \<Rightarrow> error + AdministrativeUnit" where
  "administrative_unit_by_pk db k =
     (case find (\<lambda>u. administrative_unit_id u = k) (AdministrativeUnits db) of
        None \<Rightarrow> Inl DoesNotExist
      | Some u \<Rightarrow> Inr u)"

text \<open>\<open>JurisdictionalAffiliation.get_administrative_unit_identity\<close>.\<close>

definition get_administrative_unit_identity ::
  "database \<Rightarrow> JurisdictionalAffiliation \<Rightarrow> error + AdministrativeUnitIdentity option" where
  "get_administrative_unit_identity db self =
     (case administrative_unit_by_pk db (ja_administrative_unit self) of
        Inl e \<Rightarrow> Inl e
      | Inr administrative_unit \<Rightarrow>
          Inr (au_get_identity_at_date db administrative_unit (ja_effective_from_date self)))"

text \<open>\<open>JurisdictionalAffiliationSerializer.get_administrative_unit_name\<close>.\<close>

definition ja_get_administrative_unit_name ::
  "database \<Rightarrow> JurisdictionalAffiliation \<Rightarrow> error + string option" where
  "ja_get_administrative_unit_name db obj =
     (case get_administrative_unit_identity db obj of
        Inl e \<Rightarrow> Inl e
      | Inr identity \<Rightarrow> Inr (map_option unit_name identity))"

text \<open>\<open>AdministrativeUnitResponsibilitySerializer.get_administrative_unit_name\<close>.\<close>

definition aur_get_administrative_unit_name ::
  "database \<Rightarrow> AdministrativeUnitResponsibility \<Rightarrow> error + string" where
  "aur_get_administrative_unit_name db obj =
     (case administrative_unit_by_pk db (aur_administrative_unit obj) of
        Inl e \<Rightarrow> Inl e
      | Inr administrative_unit \<Rightarrow>
          Inr (case au_get_current_identity db administrative_unit of
                 Some identity \<Rightarrow> unit_name identity
               | None \<Rightarrow> au_reference_code administrative_unit))"

text \<open>
  \<open>PostmarkAdmin.get_admin_unit\<close> (common/admin.py): the open affiliation of the
  postmark's facility identity, then the unit's name at the affiliation's start.
  \<open>JurisdictionalAffiliation\<close> declares no ordering, so \<open>first()\<close> orders by primary key.
\<close>

definition get_admin_unit :: "database \<Rightarrow> Postmark \<Rightarrow> error + string" where
  "get_admin_unit db obj =
     (case qs_first (sort_key jurisdictional_affiliation_id
             (filter (\<lambda>a. ja_postal_facility_identity a = pm_postal_facility_identity obj \<and>
                          ja_effective_to_date a = None)
                (JurisdictionalAffiliations db))) of
        None \<Rightarrow> Inr ''-''
      | Some affiliations \<Rightarrow>
          (case get_administrative_unit_identity db affiliations of
             Inl e \<Rightarrow> Inl e
           | Inr None \<Rightarrow> Inr ''-''
           | Inr (Some identity) \<Rightarrow> Inr (unit_name identity)))"

section \<open>Responsible groups\<close>

text \<open>
  MySQL compares a \<open>DATE\<close> with the timestamp \<open>Now()\<close> by reading the date as the
  timestamp of its midnight.
\<close>

definition midnight :: "date \<Rightarrow> datetime" where
  "midnight d = d * 86400000000"

text \<open>
  \<open>Postmark.get_responsible_groups\<close>, one definition per local variable.  A Group is
  its primary key (Django compares model instances by primary key).
\<close>

definition affiliations :: "database \<Rightarrow> datetime \<Rightarrow> Postmark \<Rightarrow> JurisdictionalAffiliation list" where
  "affiliations db now self =
     filter (\<lambda>a. ja_postal_facility_identity a = pm_postal_facility_identity self \<and>
                 (case ja_effective_to_date a of None \<Rightarrow> True
                  | Some t \<Rightarrow> midnight t \<ge> now))
       (JurisdictionalAffiliations db)"

definition admin_units :: "database \<Rightarrow> datetime \<Rightarrow> Postmark \<Rightarrow> pk list" where
  "admin_units db now self = map ja_administrative_unit (affiliations db now self)"

definition responsibilities ::
  "database \<Rightarrow> datetime \<Rightarrow> Postmark \<Rightarrow> AdministrativeUnitResponsibility list" where
  "responsibilities db now self =
     filter (\<lambda>r. aur_administrative_unit r \<in> set (admin_units db now self) \<and> is_active r)
       (AdministrativeUnitResponsibilities db)"

definition get_responsible_groups :: "database \<Rightarrow> datetime \<Rightarrow> Postmark \<Rightarrow> pk list" where
  "get_responsible_groups db now self = map aur_group (responsibilities db now self)"

text \<open>
  \<open>AdministrativeUnitResponsibility.Meta.unique_together = [['administrative_unit',
  'group']]\<close>: no two rows of the table pair the same unit with the same group.
\<close>

definition aur_unique_together :: "AdministrativeUnitResponsibility list \<Rightarrow> bool" where
  "aur_unique_together rows =
     (distinct rows \<and>
      (\<forall>r \<in> set rows. \<forall>r' \<in> set rows.
         aur_administrative_unit r = aur_administrative_unit r' \<and> aur_group r = aur_group r'
         \<longrightarrow> r = r'))"

section \<open>Permission check (common/views.py)\<close>

record user =
  user_id :: pk
  user_groups :: "pk list"
  is_authenticated :: bool
  is_superuser :: bool

record request =
  http_method :: string
  request_user :: user

datatype api_object = PostmarkObject Postmark | OtherObject

text \<open>\<open>IsResponsibleForRegion.has_object_permission\<close>.\<close>

definition has_object_permission ::
  "database \<Rightarrow> datetime \<Rightarrow> request \<Rightarrow> api_object \<Rightarrow> bool" where
  "has_object_permission db now req obj =
     (if http_method req \<in> set [''GET'', ''HEAD'', ''OPTIONS''] then True
      else (case obj of
              PostmarkObject p \<Rightarrow>
                (let responsible_groups = get_responsible_groups db now p
                 in list_ex (\<lambda>group. group \<in> set responsible_groups)
                      (user_groups (request_user req)))
            | OtherObject \<Rightarrow> is_authenticated (request_user req)))"

section \<open>Saving rows\<close>

text \<open>
  \<open>Model.save()\<close> on a table: the row with the same primary key is replaced where it
  stands, and a row with a new key is added at the end.
\<close>

definition save_row :: "('a \<Rightarrow> pk) \<Rightarrow> 'a \<Rightarrow> 'a list \<Rightarrow> 'a list" where
  "save_row key row rows =
     (if key row \<in> key ` set rows
      then map (\<lambda>r. if key r = key row then row else r) rows
      else rows @ [row])"

text \<open>Editing the descriptive fields of a facility identity and saving it.\<close>

definition save_facility_description ::
  "database \<Rightarrow> pk \<Rightarrow> string \<Rightarrow> string \<Rightarrow> bool \<Rightarrow> database" where
  "save_facility_description db k name type operational =
     db\<lparr>PostalFacilityIdentities :=
          map (\<lambda>i. if postal_facility_identity_id i = k
                    then i\<lparr>facility_name := name, facility_type := type,
                           is_operational := operational\<rparr>
                    else i)
            (PostalFacilityIdentities db)\<rparr>"

text \<open>Adding or modifying a jurisdictional affiliation and saving it.\<close>

definition save_affiliation :: "database \<Rightarrow> JurisdictionalAffiliation \<Rightarrow> database" where
  "save_affiliation db a =
     db\<lparr>JurisdictionalAffiliations :=
          save_row jurisdictional_affiliation_id a (JurisdictionalAffiliations db)\<rparr>"

section \<open>Restoring auth objects (common/management/commands/restore_auth.py)\<close>

datatype resource = GroupResource | UserResource | EmailAddressResource

datatype exc = SystemExit | IOError

record options =
  opt_format :: string
  dry_run :: bool
  paths :: "string list"
  users_file :: "string option"
  groups_file :: "string option"
  emails_file :: "string option"

text \<open>Python's \<open>a or b\<close> on optional strings: \<open>None\<close> and the empty string are falsy.\<close>

definition truthy_path :: "string option \<Rightarrow> bool" where
  "truthy_path p = (case p of None \<Rightarrow> False | Some s \<Rightarrow> s \<noteq> [])"

definition py_or :: "string option \<Rightarrow> string option \<Rightarrow> string option" where
  "py_or a b = (if truthy_path a then a else b)"

definition users_path :: "options \<Rightarrow> string option" where
  "users_path opts =
     py_or (users_file opts) (if length (paths opts) \<ge> 1 then Some (paths opts ! 0) else None)"

definition groups_path :: "options \<Rightarrow> string option" where
  "groups_path opts =
     py_or (groups_file opts) (if length (paths opts) \<ge> 2 then Some (paths opts ! 1) else None)"

definition emails_path :: "options \<Rightarrow> string option" where
  "emails_path opts =
     py_or (emails_file opts) (if length (paths opts) \<ge> 3 then Some (paths opts ! 2) else None)"

text \<open>
  The state of a run inside the transaction: the store as written so far, and the
  resources whose \<open>import_data\<close> has been called, in call order.
\<close>

record 's txn =
  store :: 's
  calls :: "resource list"

datatype flow = Continue | Return | Raise exc

text \<open>
  One import block of \<open>handle\<close>.  Two collaborators are parameters: \<open>read_dataset path
  format\<close> opens, reads and parses a file (\<open>None\<close> when any of these raises), and
  \<open>import_data resource dataset dry_run store\<close> is the resource's import, returning
  \<open>has_errors()\<close> and the store it leaves.  A result with errors ends the run only in a
  dry run.
\<close>

definition import_block ::
  "(string \<Rightarrow> string \<Rightarrow> 'd option) \<Rightarrow> (resource \<Rightarrow> 'd \<Rightarrow> bool \<Rightarrow> 's \<Rightarrow> bool \<times> 's) \<Rightarrow>
   options \<Rightarrow> resource \<Rightarrow> string \<Rightarrow> 's txn \<Rightarrow> flow \<times> 's txn" where
  "import_block read_dataset import_data opts res path t =
     (case read_dataset path (opt_format opts) of
        None \<Rightarrow> (Raise IOError, t)
      | Some dataset \<Rightarrow>
          (let (has_errors, s) = import_data res dataset (dry_run opts) (store t);
               t' = \<lparr>store = s, calls = calls t @ [res]\<rparr>
           in if has_errors \<and> dry_run opts then (Return, t') else (Continue, t')))"

text \<open>The body of \<open>Command.handle\<close>.\<close>

definition handle_body ::
  "(string \<Rightarrow> string \<Rightarrow> 'd option) \<Rightarrow> (resource \<Rightarrow> 'd \<Rightarrow> bool \<Rightarrow> 's \<Rightarrow> bool \<times> 's) \<Rightarrow>
   options \<Rightarrow> 's txn \<Rightarrow> flow \<times> 's txn" where
  "handle_body read_dataset import_data opts t0 =
     (if \<not> truthy_path (users_path opts) then (Raise SystemExit, t0)
      else
        (case (if truthy_path (groups_path opts)
               then import_block read_dataset import_data opts GroupResource
                      (the (groups_path opts)) t0
               else (Continue, t0)) of
           (Continue, t1) \<Rightarrow>
             (case import_block read_dataset import_data opts UserResource
                     (the (users_path opts)) t1 of
                (Continue, t2) \<Rightarrow>
                  (case (if truthy_path (emails_path opts)
                         then import_block read_dataset import_data opts EmailAddressResource
                                (the (emails_path opts)) t2
                         else (Continue, t2)) of
                     (Continue, t3) \<Rightarrow> (Return, t3)
                   | r3 \<Rightarrow> r3)
              | r2 \<Rightarrow> r2)
         | r1 \<Rightarrow> r1))"

text \<open>
  \<open>@transaction.atomic\<close> around the body: leaving it by an exception rolls the store
  back to what it was on entry, leaving it by a return commits what the body wrote.
\<close>

record 's run =
  raised :: "exc option"
  committed :: 's
  imported :: "resource list"

definition handle ::
  "(string \<Rightarrow> string \<Rightarrow> 'd option) \<Rightarrow> (resource \<Rightarrow> 'd \<Rightarrow> bool \<Rightarrow> 's \<Rightarrow> bool \<times> 's) \<Rightarrow>
   options \<Rightarrow> 's \<Rightarrow> 's run" where
  "handle read_dataset import_data opts s0 =
     (case handle_body read_dataset import_data opts \<lparr>store = s0, calls = []\<rparr> of
        (Raise e, t) \<Rightarrow> \<lparr>raised = Some e, committed = s0, imported = calls t\<rparr>
      | (_, t) \<Rightarrow> \<lparr>raised = None, committed = store t, imported = calls t\<rparr>)"

text \<open>
  An importer with the contract of \<open>import_data\<close> as \<open>handle\<close> calls it (no argument
  but \<open>dry_run\<close>, no setting overridden): the rows of the file are saved inside a
  transaction of the call's own, a row whose import raises is recorded as an error, and
  when any row failed, or in a dry run, that transaction is rolled back, so the store is
  as it was before the call.  A row names the key it saves and the keys it refers to (a
  user its groups, an email address its user); the store holds the saved keys of each
  resource.
\<close>

datatype row = Valid nat "nat list" | Invalid

fun save_rows :: "resource \<Rightarrow> row list \<Rightarrow> (resource \<Rightarrow> nat list) \<Rightarrow>
    bool \<times> (resource \<Rightarrow> nat list)" where
  "save_rows res [] s = (False, s)"
| "save_rows res (Valid n refs # rows) s = save_rows res rows (s(res := s res @ [n]))"
| "save_rows res (Invalid # rows) s = (True, snd (save_rows res rows s))"

definition import_rows :: "resource \<Rightarrow> row list \<Rightarrow> bool \<Rightarrow> (resource \<Rightarrow> nat list) \<Rightarrow>
    bool \<times> (resource \<Rightarrow> nat list)" where
  "import_rows res rows dry s =
     (case save_rows res rows s of
        (has_errors, s') \<Rightarrow> (has_errors, if dry \<or> has_errors then s else s'))"

section \<open>Example data\<close>

text \<open>
  Facility \<open>richmond\<close> is "Richmond PO" from 1860-01-01 (day 678986) to 1863-06-01
  (day 680233) and "Richmond Branch" from then on.  Unit \<open>dakota\<close> is "Dakota Territory"
  from 1861-03-02 (day 679412) and is renamed "South Dakota" on 1889-11-02 (day 689884).
\<close>

definition richmond :: PostalFacility where
  "richmond = \<lparr>postal_facility_id = 1, pf_reference_code = ''US-VA-RICHMOND-001'',
     pf_latitude = Some 375407000, pf_longitude = Some (- 774360000)\<rparr>"

definition richmond_po :: PostalFacilityIdentity where
  "richmond_po = \<lparr>postal_facility_identity_id = 1, pfi_postal_facility = 1,
     pfi_effective_from_date = 678986, pfi_effective_to_date = Some 680233,
     facility_name = ''Richmond PO'', facility_type = ''POST_OFFICE'', is_operational = True,
     pfi_latitude = None, pfi_longitude = None\<rparr>"

definition richmond_branch :: PostalFacilityIdentity where
  "richmond_branch = \<lparr>postal_facility_identity_id = 2, pfi_postal_facility = 1,
     pfi_effective_from_date = 680233, pfi_effective_to_date = None,
     facility_name = ''Richmond Branch'', facility_type = ''BRANCH'', is_operational = True,
     pfi_latitude = Some 0, pfi_longitude = Some (- 774000000)\<rparr>"

definition dakota :: AdministrativeUnit where
  "dakota = \<lparr>administrative_unit_id = 1, au_reference_code = ''DAK-TER''\<rparr>"

definition dakota_territory :: AdministrativeUnitIdentity where
  "dakota_territory = \<lparr>administrative_unit_identity_id = 1, aui_administrative_unit = 1,
     parent_administrative_unit = None, aui_effective_from_date = 679412,
     aui_effective_to_date = Some 689884, unit_name = ''Dakota Territory'',
     unit_type = ''TERRITORY''\<rparr>"

definition south_dakota :: AdministrativeUnitIdentity where
  "south_dakota = \<lparr>administrative_unit_identity_id = 2, aui_administrative_unit = 1,
     parent_administrative_unit = None, aui_effective_from_date = 689884,
     aui_effective_to_date = None, unit_name = ''South Dakota'', unit_type = ''STATE''\<rparr>"

definition example_db :: database where
  "example_db = \<lparr>PostalFacilities = [richmond],
     PostalFacilityIdentities = [richmond_po, richmond_branch],
     AdministrativeUnits = [dakota],
     AdministrativeUnitIdentities = [dakota_territory, south_dakota],
     AdministrativeUnitResponsibilities = [],
     JurisdictionalAffiliations = [],
     Postmarks = []\<rparr>"

text \<open>
  A facility with two identities that are both open: "Richmond PO" was never closed when
  "Richmond Branch" began.  The two databases hold the same rows in the two storage orders.
\<close>

definition richmond_po_open :: PostalFacilityIdentity where
  "richmond_po_open = richmond_po\<lparr>pfi_effective_to_date := None\<rparr>"

definition overlap_db :: database where
  "overlap_db = example_db\<lparr>PostalFacilityIdentities := [richmond_po_open, richmond_branch]\<rparr>"

definition overlap_db_reversed :: database where
  "overlap_db_reversed =
     example_db\<lparr>PostalFacilityIdentities := [richmond_branch, richmond_po_open]\<rparr>"

text \<open>
  A postmark of "Richmond Branch", read at noon of 2025-11-17 (day 739572).  In
  \<open>shared_group_db\<close> the identity has two open affiliations, to units 1 and 2, and group 7
  is responsible for both units.  In \<open>future_db\<close> its only affiliation starts on
  2030-01-01 (day 741078).
\<close>

definition richmond_postmark :: Postmark where
  "richmond_postmark = \<lparr>postmark_id = 1, pm_postal_facility_identity = 2,
     postmark_key = ''RICHMOND-CDS-1''\<rparr>"

definition noon_2025 :: datetime where
  "noon_2025 = midnight 739572 + 43200000000"

definition nebraska :: AdministrativeUnit where
  "nebraska = \<lparr>administrative_unit_id = 2, au_reference_code = ''NEB-TER''\<rparr>"

definition affiliation_dakota :: JurisdictionalAffiliation where
  "affiliation_dakota = \<lparr>jurisdictional_affiliation_id = 1, ja_postal_facility_identity = 2,
     ja_administrative_unit = 1, ja_effective_from_date = 680233,
     ja_effective_to_date = None, affiliation_source = ''Organic Act''\<rparr>"

definition affiliation_nebraska :: JurisdictionalAffiliation where
  "affiliation_nebraska = \<lparr>jurisdictional_affiliation_id = 2, ja_postal_facility_identity = 2,
     ja_administrative_unit = 2, ja_effective_from_date = 680233,
     ja_effective_to_date = None, affiliation_source = ''Treaty''\<rparr>"

definition affiliation_future :: JurisdictionalAffiliation where
  "affiliation_future = \<lparr>jurisdictional_affiliation_id = 3, ja_postal_facility_identity = 2,
     ja_administrative_unit = 1, ja_effective_from_date = 741078,
     ja_effective_to_date = None, affiliation_source = ''Planned annexation''\<rparr>"

definition responsibility_dakota :: AdministrativeUnitResponsibility where
  "responsibility_dakota = \<lparr>administrative_unit_responsibility_id = 1,
     aur_administrative_unit = 1, aur_group = 7, is_active = True\<rparr>"

definition responsibility_nebraska :: AdministrativeUnitResponsibility where
  "responsibility_nebraska = \<lparr>administrative_unit_responsibility_id = 2,
     aur_administrative_unit = 2, aur_group = 7, is_active = True\<rparr>"

definition shared_group_db :: database where
  "shared_group_db = example_db\<lparr>AdministrativeUnits := [dakota, nebraska],
     AdministrativeUnitResponsibilities := [responsibility_dakota, responsibility_nebraska],
     JurisdictionalAffiliations := [affiliation_dakota, affiliation_nebraska],
     Postmarks := [richmond_postmark]\<rparr>"

definition future_db :: database where
  "future_db = example_db\<lparr>
     AdministrativeUnitResponsibilities := [responsibility_dakota],
     JurisdictionalAffiliations := [affiliation_future],
     Postmarks := [richmond_postmark]\<rparr>"

text \<open>A member of group 7 and a member of group 8, and their update requests.\<close>

definition curator :: user where
  "curator = \<lparr>user_id = 1, user_groups = [3, 7], is_authenticated = True,
     is_superuser = False\<rparr>"

definition visitor :: user where
  "visitor = \<lparr>user_id = 2, user_groups = [8], is_authenticated = True,
     is_superuser = False\<rparr>"

definition put_by :: "user \<Rightarrow> request" where
  "put_by u = \<lparr>http_method = ''PUT'', request_user = u\<rparr>"

text \<open>
  Two restore runs \<open>restore_auth users.csv groups.csv\<close>.  In \<open>example_files\<close> both group
  rows are valid and the second of three user rows is not.  In \<open>failed_groups_files\<close> the
  second group row is not valid, and the one user row refers to group 1, the first row
  of the groups file.
\<close>

definition example_files :: "string \<Rightarrow> string \<Rightarrow> row list option" where
  "example_files path format =
     (if path = ''groups.csv'' then Some [Valid 1 [], Valid 2 []]
      else if path = ''users.csv'' then Some [Valid 10 [1], Invalid, Valid 11 [2]]
      else None)"

definition failed_groups_files :: "string \<Rightarrow> string \<Rightarrow> row list option" where
  "failed_groups_files path format =
     (if path = ''groups.csv'' then Some [Valid 1 [], Invalid]
      else if path = ''users.csv'' then Some [Valid 10 [1]]
      else None)"

definition example_options :: options where
  "example_options = \<lparr>opt_format = ''csv'', dry_run = False,
     paths = [''users.csv'', ''groups.csv''], users_file = None, groups_file = None,
     emails_file = None\<rparr>"

definition empty_store :: "resource \<Rightarrow> nat list" where
  "empty_store = (\<lambda>res. [])"

section \<open>Facts about query sets\<close>

lemma qs_first_None_iff: "qs_first xs = None \<longleftrightarrow> xs = []"
  by (cases xs) (simp_all add: qs_first_def)

lemma qs_first_in_set: "qs_first xs = Some x \<Longrightarrow> x \<in> set xs"
  by (cases xs) (auto simp: qs_first_def)

lemma qs_first_singleton_set:
  assumes "x \<in> set xs" and "\<forall>y \<in> set xs. y = x"
  shows "qs_first xs = Some x"
  using assms by (cases xs) (auto simp: qs_first_def)

lemma set_pfi_ordering: "set (pfi_ordering rows) = set rows"
  by (simp add: pfi_ordering_def)

lemma set_aui_ordering: "set (aui_ordering rows) = set rows"
  by (simp add: aui_ordering_def)

lemma overlap_if_common_date:
  assumes "in_interval f1 t1 d" and "in_interval f2 t2 d"
  shows "intervals_overlap f1 t1 f2 t2"
  using assms by (auto simp: intervals_overlap_def in_interval_def split: option.splits)

section \<open>Identity resolution returns a row whose interval holds the date\<close>

lemma pfi_filter_in_interval:
  "(pfi_effective_from_date i \<le> d \<and>
      (case pfi_effective_to_date i of None \<Rightarrow> True | Some t \<Rightarrow> t > d)) =
   in_interval (pfi_effective_from_date i) (pfi_effective_to_date i) d"
  by (simp add: in_interval_def split: option.splits)

lemma aui_filter_in_interval:
  "(aui_effective_from_date i \<le> d \<and>
      (case aui_effective_to_date i of None \<Rightarrow> True | Some t \<Rightarrow> t > d)) =
   in_interval (aui_effective_from_date i) (aui_effective_to_date i) d"
  by (simp add: in_interval_def split: option.splits)

lemma pf_get_identity_at_date_Some:
  assumes "pf_get_identity_at_date db f d = Some i"
  shows "i \<in> set (pf_identities db f) \<and>
         in_interval (pfi_effective_from_date i) (pfi_effective_to_date i) d"
  using qs_first_in_set [OF assms [unfolded pf_get_identity_at_date_def]]
  by (simp add: set_pfi_ordering pfi_filter_in_interval)

lemma au_get_identity_at_date_Some:
  assumes "au_get_identity_at_date db u d = Some i"
  shows "i \<in> set (au_identities db u) \<and>
         in_interval (aui_effective_from_date i) (aui_effective_to_date i) d"
  using qs_first_in_set [OF assms [unfolded au_get_identity_at_date_def]]
  by (simp add: set_aui_ordering aui_filter_in_interval)

lemma pf_get_identity_at_date_None:
  "pf_get_identity_at_date db f d = None \<longleftrightarrow>
   (\<forall>i \<in> set (pf_identities db f).
      \<not> in_interval (pfi_effective_from_date i) (pfi_effective_to_date i) d)"
proof -
  let ?xs = "filter (\<lambda>i. pfi_effective_from_date i \<le> d \<and>
      (case pfi_effective_to_date i of None \<Rightarrow> True | Some t \<Rightarrow> t > d)) (pf_identities db f)"
  have "pf_get_identity_at_date db f d = None \<longleftrightarrow> set (pfi_ordering ?xs) = {}"
    by (simp add: pf_get_identity_at_date_def qs_first_None_iff)
  also have "\<dots> \<longleftrightarrow> set ?xs = {}" by (simp only: set_pfi_ordering)
  also have "\<dots> \<longleftrightarrow> (\<forall>i \<in> set (pf_identities db f).
      \<not> in_interval (pfi_effective_from_date i) (pfi_effective_to_date i) d)"
    by (auto simp: pfi_filter_in_interval filter_empty_conv)
  finally show ?thesis .
qed

lemma au_get_identity_at_date_None:
  "au_get_identity_at_date db u d = None \<longleftrightarrow>
   (\<forall>i \<in> set (au_identities db u).
      \<not> in_interval (aui_effective_from_date i) (aui_effective_to_date i) d)"
proof -
  let ?xs = "filter (\<lambda>i. aui_effective_from_date i \<le> d \<and>
      (case aui_effective_to_date i of None \<Rightarrow> True | Some t \<Rightarrow> t > d)) (au_identities db u)"
  have "au_get_identity_at_date db u d = None \<longleftrightarrow> set (aui_ordering ?xs) = {}"
    by (simp add: au_get_identity_at_date_def qs_first_None_iff)
  also have "\<dots> \<longleftrightarrow> set ?xs = {}" by (simp only: set_aui_ordering)
  also have "\<dots> \<longleftrightarrow> (\<forall>i \<in> set (au_identities db u).
      \<not> in_interval (aui_effective_from_date i) (aui_effective_to_date i) d)"
    by (auto simp: aui_filter_in_interval filter_empty_conv)
  finally show ?thesis .
qed

lemma pf_get_identity_at_date_unique:
  assumes no: "pfi_non_overlapping (pf_identities db f)"
    and i: "i \<in> set (pf_identities db f)"
    and d: "in_interval (pfi_effective_from_date i) (pfi_effective_to_date i) d"
  shows "pf_get_identity_at_date db f d = Some i"
proof (cases "pf_get_identity_at_date db f d")
  case None
  with i d show ?thesis by (simp add: pf_get_identity_at_date_None)
next
  case (Some j)
  from pf_get_identity_at_date_Some [OF Some]
  have j: "j \<in> set (pf_identities db f)"
    and jd: "in_interval (pfi_effective_from_date j) (pfi_effective_to_date j) d" by simp_all
  have "j = i"
  proof (rule ccontr)
    assume "j \<noteq> i"
    with no i j have "\<not> intervals_overlap (pfi_effective_from_date j) (pfi_effective_to_date j)
        (pfi_effective_from_date i) (pfi_effective_to_date i)"
      unfolding pfi_non_overlapping_def by blast
    with overlap_if_common_date [OF jd d] show False by simp
  qed
  with Some show ?thesis by simp
qed

lemma au_get_identity_at_date_unique:
  assumes no: "aui_non_overlapping (au_identities db u)"
    and i: "i \<in> set (au_identities db u)"
    and d: "in_interval (aui_effective_from_date i) (aui_effective_to_date i) d"
  shows "au_get_identity_at_date db u d = Some i"
proof (cases "au_get_identity_at_date db u d")
  case None
  with i d show ?thesis by (simp add: au_get_identity_at_date_None)
next
  case (Some j)
  from au_get_identity_at_date_Some [OF Some]
  have j: "j \<in> set (au_identities db u)"
    and jd: "in_interval (aui_effective_from_date j) (aui_effective_to_date j) d" by simp_all
  have "j = i"
  proof (rule ccontr)
    assume "j \<noteq> i"
    with no i j have "\<not> intervals_overlap (aui_effective_from_date j) (aui_effective_to_date j)
        (aui_effective_from_date i) (aui_effective_to_date i)"
      unfolding aui_non_overlapping_def by blast
    with overlap_if_common_date [OF jd d] show False by simp
  qed
  with Some show ?thesis by simp
qed

lemma not_in_interval_at_end: "\<not> in_interval from (Some e) e"
  by (simp add: in_interval_def)

lemma pf_right_open:
  assumes no: "pfi_non_overlapping (pf_identities db f)"
  shows "(\<forall>i \<in> set (pf_identities db f).
            in_interval (pfi_effective_from_date i) (pfi_effective_to_date i) d \<longrightarrow>
            pf_get_identity_at_date db f d = Some i) \<and>
         ((\<forall>i \<in> set (pf_identities db f).
            \<not> in_interval (pfi_effective_from_date i) (pfi_effective_to_date i) d) \<longrightarrow>
            pf_get_identity_at_date db f d = None) \<and>
         (\<forall>i \<in> set (pf_identities db f).
            (case pfi_effective_to_date i of None \<Rightarrow> True
             | Some e \<Rightarrow> pfi_effective_from_date i < e) \<longrightarrow>
            pf_get_identity_at_date db f (pfi_effective_from_date i) = Some i) \<and>
         (\<forall>i \<in> set (pf_identities db f). \<forall>e. pfi_effective_to_date i = Some e \<longrightarrow>
            pf_get_identity_at_date db f e \<noteq> Some i) \<and>
         (\<forall>i \<in> set (pf_identities db f).
            pfi_effective_to_date i = None \<and> pfi_effective_from_date i \<le> d \<longrightarrow>
            pf_get_identity_at_date db f d = Some i)"
proof (intro conjI ballI allI impI)
  fix i assume "i \<in> set (pf_identities db f)"
    and "in_interval (pfi_effective_from_date i) (pfi_effective_to_date i) d"
  then show "pf_get_identity_at_date db f d = Some i"
    by (rule pf_get_identity_at_date_unique [OF no])
next
  assume "\<forall>i \<in> set (pf_identities db f).
            \<not> in_interval (pfi_effective_from_date i) (pfi_effective_to_date i) d"
  then show "pf_get_identity_at_date db f d = None"
    by (simp add: pf_get_identity_at_date_None)
next
  fix i assume i: "i \<in> set (pf_identities db f)"
    and ne: "case pfi_effective_to_date i of None \<Rightarrow> True
             | Some e \<Rightarrow> pfi_effective_from_date i < e"
  from ne have "in_interval (pfi_effective_from_date i) (pfi_effective_to_date i)
      (pfi_effective_from_date i)"
    by (simp add: in_interval_def)
  with i show "pf_get_identity_at_date db f (pfi_effective_from_date i) = Some i"
    by (rule pf_get_identity_at_date_unique [OF no])
next
  fix i e assume "i \<in> set (pf_identities db f)" and e: "pfi_effective_to_date i = Some e"
  show "pf_get_identity_at_date db f e \<noteq> Some i"
  proof
    assume "pf_get_identity_at_date db f e = Some i"
    from pf_get_identity_at_date_Some [OF this] e show False
      by (simp add: not_in_interval_at_end)
  qed
next
  fix i assume i: "i \<in> set (pf_identities db f)"
    and o: "pfi_effective_to_date i = None \<and> pfi_effective_from_date i \<le> d"
  from o have "in_interval (pfi_effective_from_date i) (pfi_effective_to_date i) d"
    by (simp add: in_interval_def)
  with i show "pf_get_identity_at_date db f d = Some i"
    by (rule pf_get_identity_at_date_unique [OF no])
qed

lemma au_right_open:
  assumes no: "aui_non_overlapping (au_identities db u)"
  shows "(\<forall>i \<in> set (au_identities db u).
            in_interval (aui_effective_from_date i) (aui_effective_to_date i) d \<longrightarrow>
            au_get_identity_at_date db u d = Some i) \<and>
         ((\<forall>i \<in> set (au_identities db u).
            \<not> in_interval (aui_effective_from_date i) (aui_effective_to_date i) d) \<longrightarrow>
            au_get_identity_at_date db u d = None) \<and>
         (\<forall>i \<in> set (au_identities db u).
            (case aui_effective_to_date i of None \<Rightarrow> True
             | Some e \<Rightarrow> aui_effective_from_date i < e) \<longrightarrow>
            au_get_identity_at_date db u (aui_effective_from_date i) = Some i) \<and>
         (\<forall>i \<in> set (au_identities db u). \<forall>e. aui_effective_to_date i = Some e \<longrightarrow>
            au_get_identity_at_date db u e \<noteq> Some i) \<and>
         (\<forall>i \<in> set (au_identities db u).
            aui_effective_to_date i = None \<and> aui_effective_from_date i \<le> d \<longrightarrow>
            au_get_identity_at_date db u d = Some i)"
proof (intro conjI ballI allI impI)
  fix i assume "i \<in> set (au_identities db u)"
    and "in_interval (aui_effective_from_date i) (aui_effective_to_date i) d"
  then show "au_get_identity_at_date db u d = Some i"
    by (rule au_get_identity_at_date_unique [OF no])
next
  assume "\<forall>i \<in> set (au_identities db u).
            \<not> in_interval (aui_effective_from_date i) (aui_effective_to_date i) d"
  then show "au_get_identity_at_date db u d = None"
    by (simp add: au_get_identity_at_date_None)
next
  fix i assume i: "i \<in> set (au_identities db u)"
    and ne: "case aui_effective_to_date i of None \<Rightarrow> True
             | Some e \<Rightarrow> aui_effective_from_date i < e"
  from ne have "in_interval (aui_effective_from_date i) (aui_effective_to_date i)
      (aui_effective_from_date i)"
    by (simp add: in_interval_def)
  with i show "au_get_identity_at_date db u (aui_effective_from_date i) = Some i"
    by (rule au_get_identity_at_date_unique [OF no])
next
  fix i e assume "i \<in> set (au_identities db u)" and e: "aui_effective_to_date i = Some e"
  show "au_get_identity_at_date db u e \<noteq> Some i"
  proof
    assume "au_get_identity_at_date db u e = Some i"
    from au_get_identity_at_date_Some [OF this] e show False
      by (simp add: not_in_interval_at_end)
  qed
next
  fix i assume i: "i \<in> set (au_identities db u)"
    and o: "aui_effective_to_date i = None \<and> aui_effective_from_date i \<le> d"
  from o have "in_interval (aui_effective_from_date i) (aui_effective_to_date i) d"
    by (simp add: in_interval_def)
  with i show "au_get_identity_at_date db u d = Some i"
    by (rule au_get_identity_at_date_unique [OF no])
qed

lemmas example_rows = richmond_def richmond_po_def richmond_branch_def dakota_def
  dakota_territory_def south_dakota_def example_db_def

lemmas resolution_defs = pf_identities_def au_identities_def pfi_ordering_def aui_ordering_def
  qs_first_def pf_get_identity_at_date_def au_get_identity_at_date_def
  pf_get_current_identity_def au_get_current_identity_def

section \<open>The first row of an ordered query set\<close>

lemma sorted_constant_key: "\<forall>x \<in> set xs. f x = c \<Longrightarrow> sorted (map f xs)"
  by (induction xs) auto

lemma sort_key_constant: "\<forall>x \<in> set xs. f x = c \<Longrightarrow> sort_key f xs = xs"
  by (rule sort_key_id_if_sorted) (rule sorted_constant_key)

lemma sort_key_head_least:
  assumes "sort_key f xs = y # ys" and "x \<in> set xs"
  shows "f y \<le> f x"
proof -
  have "sorted (map f (y # ys))" using sorted_sort_key [of f xs] assms(1) by simp
  moreover have "x \<in> set (y # ys)" using set_sort [of f xs] assms by simp
  ultimately show ?thesis by auto
qed

lemma qs_first_sort_key_least:
  assumes "qs_first (sort_key f xs) = Some y" and "x \<in> set xs"
  shows "f y \<le> f x"
proof (cases "sort_key f xs")
  case Nil
  with assms(1) show ?thesis by (simp add: qs_first_def)
next
  case (Cons z zs)
  with assms(1) have "z = y" by (simp add: qs_first_def)
  with Cons assms(2) show ?thesis by (auto dest: sort_key_head_least)
qed

lemma pfi_ordering_one_facility:
  assumes "\<forall>i \<in> set rows. pfi_postal_facility i = k"
  shows "pfi_ordering rows = sort_key pfi_effective_from_date rows"
  unfolding pfi_ordering_def
  using assms sort_key_constant [of "sort_key pfi_effective_from_date rows" pfi_postal_facility k]
  by simp

lemma aui_ordering_one_unit:
  assumes "\<forall>i \<in> set rows. aui_administrative_unit i = k"
  shows "aui_ordering rows = sort_key (\<lambda>i. - aui_effective_from_date i) rows"
  unfolding aui_ordering_def
  using assms sort_key_constant [of "sort_key (\<lambda>i. - aui_effective_from_date i) rows"
      aui_administrative_unit k]
  by simp

lemma pf_get_identity_at_date_earliest:
  assumes r: "pf_get_identity_at_date db f d = Some i"
    and j: "j \<in> set (pf_identities db f)"
    and jd: "in_interval (pfi_effective_from_date j) (pfi_effective_to_date j) d"
  shows "pfi_effective_from_date i \<le> pfi_effective_from_date j"
proof -
  let ?xs = "filter (\<lambda>i. pfi_effective_from_date i \<le> d \<and>
      (case pfi_effective_to_date i of None \<Rightarrow> True | Some t \<Rightarrow> t > d)) (pf_identities db f)"
  have "\<forall>i \<in> set ?xs. pfi_postal_facility i = postal_facility_id f"
    by (simp add: pf_identities_def)
  then have o: "pfi_ordering ?xs = sort_key pfi_effective_from_date ?xs"
    by (rule pfi_ordering_one_facility)
  have "j \<in> set ?xs" using j jd by (simp add: pfi_filter_in_interval)
  moreover have "qs_first (sort_key pfi_effective_from_date ?xs) = Some i"
    using r by (simp only: pf_get_identity_at_date_def o)
  ultimately show ?thesis by (rule qs_first_sort_key_least [rotated])
qed

lemma au_get_identity_at_date_latest:
  assumes r: "au_get_identity_at_date db u d = Some i"
    and j: "j \<in> set (au_identities db u)"
    and jd: "in_interval (aui_effective_from_date j) (aui_effective_to_date j) d"
  shows "aui_effective_from_date j \<le> aui_effective_from_date i"
proof -
  let ?xs = "filter (\<lambda>i. aui_effective_from_date i \<le> d \<and>
      (case aui_effective_to_date i of None \<Rightarrow> True | Some t \<Rightarrow> t > d)) (au_identities db u)"
  have "\<forall>i \<in> set ?xs. aui_administrative_unit i = administrative_unit_id u"
    by (simp add: au_identities_def)
  then have o: "aui_ordering ?xs = sort_key (\<lambda>i. - aui_effective_from_date i) ?xs"
    by (rule aui_ordering_one_unit)
  have "j \<in> set ?xs" using j jd by (simp add: aui_filter_in_interval)
  moreover have "qs_first (sort_key (\<lambda>i. - aui_effective_from_date i) ?xs) = Some i"
    using r by (simp only: au_get_identity_at_date_def o)
  ultimately have "- aui_effective_from_date i \<le> - aui_effective_from_date j"
    by (rule qs_first_sort_key_least [rotated])
  then show ?thesis by simp
qed

lemma au_get_current_identity_latest:
  assumes r: "au_get_current_identity db u = Some i"
    and j: "j \<in> set (au_identities db u)"
    and jd: "aui_effective_to_date j = None"
  shows "aui_effective_from_date j \<le> aui_effective_from_date i"
proof -
  let ?xs = "filter (\<lambda>i. aui_effective_to_date i = None) (au_identities db u)"
  have "\<forall>i \<in> set ?xs. aui_administrative_unit i = administrative_unit_id u"
    by (simp add: au_identities_def)
  then have o: "aui_ordering ?xs = sort_key (\<lambda>i. - aui_effective_from_date i) ?xs"
    by (rule aui_ordering_one_unit)
  have "j \<in> set ?xs" using j jd by simp
  moreover have "qs_first (sort_key (\<lambda>i. - aui_effective_from_date i) ?xs) = Some i"
    using r by (simp only: au_get_current_identity_def o)
  ultimately have "- aui_effective_from_date i \<le> - aui_effective_from_date j"
    by (rule qs_first_sort_key_least [rotated])
  then show ?thesis by simp
qed

lemma pf_get_current_identity_earliest:
  assumes r: "pf_get_current_identity db f = Some i"
    and j: "j \<in> set (pf_identities db f)"
    and jd: "pfi_effective_to_date j = None"
  shows "pfi_effective_from_date i \<le> pfi_effective_from_date j"
proof -
  let ?xs = "filter (\<lambda>i. pfi_effective_to_date i = None) (pf_identities db f)"
  have "\<forall>i \<in> set ?xs. pfi_postal_facility i = postal_facility_id f"
    by (simp add: pf_identities_def)
  then have o: "pfi_ordering ?xs = sort_key pfi_effective_from_date ?xs"
    by (rule pfi_ordering_one_facility)
  have "j \<in> set ?xs" using j jd by simp
  moreover have "qs_first (sort_key pfi_effective_from_date ?xs) = Some i"
    using r by (simp only: pf_get_current_identity_def o)
  ultimately show ?thesis by (rule qs_first_sort_key_least [rotated])
qed

section \<open>Tables a saved row does not touch\<close>

lemma au_identity_ignores_facility_description:
  "au_get_identity_at_date (save_facility_description db k name type operational) u d =
     au_get_identity_at_date db u d"
  by (simp add: save_facility_description_def au_get_identity_at_date_def au_identities_def)

lemma unit_by_pk_ignores_facility_description:
  "administrative_unit_by_pk (save_facility_description db k name type operational) n =
     administrative_unit_by_pk db n"
  by (simp add: save_facility_description_def administrative_unit_by_pk_def)

lemma unit_identity_ignores_facility_description:
  "get_administrative_unit_identity (save_facility_description db k name type operational) a =
     get_administrative_unit_identity db a"
  unfolding get_administrative_unit_identity_def au_identity_ignores_facility_description
    unit_by_pk_ignores_facility_description
  by (rule refl)

lemma admin_unit_ignores_facility_description:
  "get_admin_unit (save_facility_description db k name type operational) pm =
     get_admin_unit db pm"
proof -
  have "JurisdictionalAffiliations (save_facility_description db k name type operational) =
      JurisdictionalAffiliations db"
    by (simp add: save_facility_description_def)
  then show ?thesis
    unfolding get_admin_unit_def unit_identity_ignores_facility_description by simp
qed

lemmas scenario_rows = richmond_po_open_def overlap_db_def overlap_db_reversed_def
  richmond_postmark_def noon_2025_def nebraska_def affiliation_dakota_def
  affiliation_nebraska_def affiliation_future_def responsibility_dakota_def
  responsibility_nebraska_def shared_group_db_def future_db_def curator_def visitor_def
  put_by_def

lemmas responsible_defs = affiliations_def admin_units_def responsibilities_def
  get_responsible_groups_def midnight_def

lemmas handle_defs = handle_def handle_body_def import_block_def users_path_def
  groups_path_def emails_path_def py_or_def truthy_path_def

section \<open>A unit with two identities\<close>

lemma au_get_current_identity_only_open:
  assumes i: "i \<in> set (au_identities db u)" and o: "aui_effective_to_date i = None"
    and u: "\<forall>j \<in> set (au_identities db u). aui_effective_to_date j = None \<longrightarrow> j = i"
  shows "au_get_current_identity db u = Some i"
proof -
  let ?xs = "filter (\<lambda>i. aui_effective_to_date i = None) (au_identities db u)"
  have "i \<in> set (aui_ordering ?xs)" using i o by (simp add: set_aui_ordering)
  moreover have "\<forall>y \<in> set (aui_ordering ?xs). y = i" using u by (simp add: set_aui_ordering)
  ultimately show ?thesis
    unfolding au_get_current_identity_def by (rule qs_first_singleton_set)
qed


lemma aui_non_overlapping_pair:
  assumes "set rows = {i1, i2}"
    and "\<not> intervals_overlap (aui_effective_from_date i1) (aui_effective_to_date i1)
            (aui_effective_from_date i2) (aui_effective_to_date i2)"
    and "\<not> intervals_overlap (aui_effective_from_date i2) (aui_effective_to_date i2)
            (aui_effective_from_date i1) (aui_effective_to_date i1)"
  shows "aui_non_overlapping rows"
  unfolding aui_non_overlapping_def assms(1) using assms(2,3) by blast

section \<open>Runs of the restore command\<close>

lemma import_block_result:
  "import_block rd imp opts res path t = (Raise IOError, t) \<or>
   (\<exists>s. import_block rd imp opts res path t =
        (Return, \<lparr>store = s, calls = calls t @ [res]\<rparr>)) \<or>
   (\<exists>s. import_block rd imp opts res path t =
        (Continue, \<lparr>store = s, calls = calls t @ [res]\<rparr>))"
proof (cases "rd path (opt_format opts)")
  case None
  then show ?thesis by (simp add: import_block_def)
next
  case (Some dataset)
  obtain e s where r: "imp res dataset (dry_run opts) (store t) = (e, s)"
    by (cases "imp res dataset (dry_run opts) (store t)")
  show ?thesis
  proof (cases "e \<and> dry_run opts")
    case True
    with Some r show ?thesis by (simp add: import_block_def)
  next
    case False
    with Some r have "import_block rd imp opts res path t =
        (Continue, \<lparr>store = s, calls = calls t @ [res]\<rparr>)"
      by (auto simp: import_block_def)
    then show ?thesis by blast
  qed
qed

lemma import_block_cases:
  obtains (raise) "import_block rd imp opts res path t = (Raise IOError, t)"
  | (return) s where "import_block rd imp opts res path t =
        (Return, \<lparr>store = s, calls = calls t @ [res]\<rparr>)"
  | (continue) s where "import_block rd imp opts res path t =
        (Continue, \<lparr>store = s, calls = calls t @ [res]\<rparr>)"
  using import_block_result [of rd imp opts res path t] by blast

lemma handle_body_calls:
  "calls (snd (handle_body rd imp opts \<lparr>store = s0, calls = []\<rparr>)) \<in>
     (if truthy_path (groups_path opts)
      then {[], [GroupResource], [GroupResource, UserResource]} \<union>
           (if truthy_path (emails_path opts)
            then {[GroupResource, UserResource, EmailAddressResource]} else {})
      else {[], [UserResource]} \<union>
           (if truthy_path (emails_path opts)
            then {[UserResource, EmailAddressResource]} else {}))"
proof (cases "truthy_path (users_path opts)")
  case False
  then show ?thesis by (simp add: handle_body_def)
next
  case up: True
  let ?t0 = "\<lparr>store = s0, calls = []\<rparr>"
  show ?thesis
  proof (cases "truthy_path (groups_path opts)")
    case gp: True
    show ?thesis
    proof (cases rule: import_block_cases [of rd imp opts GroupResource "the (groups_path opts)" ?t0])
      case raise
      then show ?thesis using up gp by (simp add: handle_body_def)
    next
      case (return s)
      then show ?thesis using up gp by (simp add: handle_body_def)
    next
      case g: (continue s1)
      let ?t1 = "\<lparr>store = s1, calls = [GroupResource]\<rparr>"
      show ?thesis
      proof (cases rule: import_block_cases [of rd imp opts UserResource "the (users_path opts)" ?t1])
        case raise
        then show ?thesis using up gp g by (simp add: handle_body_def)
      next
        case (return s)
        then show ?thesis using up gp g by (simp add: handle_body_def)
      next
        case u: (continue s2)
        let ?t2 = "\<lparr>store = s2, calls = [GroupResource, UserResource]\<rparr>"
        show ?thesis
        proof (cases "truthy_path (emails_path opts)")
          case False
          then show ?thesis using up gp g u by (simp add: handle_body_def)
        next
          case ep: True
          show ?thesis
            by (cases rule: import_block_cases
                  [of rd imp opts EmailAddressResource "the (emails_path opts)" ?t2])
               (use up gp g u ep in \<open>simp_all add: handle_body_def\<close>)
        qed
      qed
    qed
  next
    case gp: False
    let ?t1 = ?t0
    show ?thesis
    proof (cases rule: import_block_cases [of rd imp opts UserResource "the (users_path opts)" ?t1])
      case raise
      then show ?thesis using up gp by (simp add: handle_body_def)
    next
      case (return s)
      then show ?thesis using up gp by (simp add: handle_body_def)
    next
      case u: (continue s2)
      let ?t2 = "\<lparr>store = s2, calls = [UserResource]\<rparr>"
      show ?thesis
      proof (cases "truthy_path (emails_path opts)")
        case False
        then show ?thesis using up gp u by (simp add: handle_body_def)
      next
        case ep: True
        show ?thesis
          by (cases rule: import_block_cases
                [of rd imp opts EmailAddressResource "the (emails_path opts)" ?t2])
             (use up gp u ep in \<open>simp_all add: handle_body_def\<close>)
      qed
    qed
  qed
qed

lemma handle_imported:
  "imported (handle rd imp opts s0) =
     calls (snd (handle_body rd imp opts \<lparr>store = s0, calls = []\<rparr>))"
  by (simp add: handle_def split: prod.splits flow.splits)


lemma import_block_continue:
  assumes "rd path (opt_format opts) = Some dataset" and "\<not> dry_run opts"
  shows "import_block rd imp opts res path t =
     (Continue, \<lparr>store = snd (imp res dataset False (store t)), calls = calls t @ [res]\<rparr>)"
  using assms by (simp add: import_block_def split: prod.splits)

lemma handle_full_run:
  assumes up: "users_path opts = Some up" "up \<noteq> []"
    and gp: "groups_path opts = Some gp" "gp \<noteq> []"
    and ep: "emails_path opts = Some ep" "ep \<noteq> []"
    and rd: "rd gp (opt_format opts) = Some dg" "rd up (opt_format opts) = Some du"
      "rd ep (opt_format opts) = Some de"
    and dry: "\<not> dry_run opts"
  shows "handle rd imp opts s0 =
     \<lparr>raised = None,
      committed = snd (imp EmailAddressResource de False
                    (snd (imp UserResource du False
                       (snd (imp GroupResource dg False s0))))),
      imported = [GroupResource, UserResource, EmailAddressResource]\<rparr>"
  by (simp add: handle_def handle_body_def truthy_path_def up gp ep
      import_block_continue [of rd gp opts dg, OF rd(1) dry]
      import_block_continue [of rd up opts du, OF rd(2) dry]
      import_block_continue [of rd ep opts de, OF rd(3) dry])

section \<open>The list of responsible groups\<close>

lemma count_list_map_filter:
  "count_list (map f (filter P xs)) v = length (filter (\<lambda>x. P x \<and> f x = v) xs)"
  by (induction xs) auto

lemma responsible_groups_empty:
  assumes "\<forall>r \<in> set (AdministrativeUnitResponsibilities db).
      aur_administrative_unit r \<in> set (admin_units db now pm) \<longrightarrow> \<not> is_active r"
  shows "get_responsible_groups db now pm = []"
  using assms by (auto simp: get_responsible_groups_def responsibilities_def filter_empty_conv)

lemma responsible_groups_set:
  "set (get_responsible_groups db now pm) =
     {aur_group r | r. r \<in> set (AdministrativeUnitResponsibilities db) \<and> is_active r \<and>
        aur_administrative_unit r \<in> set (admin_units db now pm)}"
  by (auto simp: get_responsible_groups_def responsibilities_def)

lemma responsible_groups_count:
  assumes ut: "aur_unique_together (AdministrativeUnitResponsibilities db)"
  shows "count_list (get_responsible_groups db now pm) g =
     card {u \<in> set (admin_units db now pm).
        \<exists>r \<in> set (AdministrativeUnitResponsibilities db).
          aur_administrative_unit r = u \<and> aur_group r = g \<and> is_active r}"
proof -
  let ?rows = "AdministrativeUnitResponsibilities db"
  let ?P = "\<lambda>r. (aur_administrative_unit r \<in> set (admin_units db now pm) \<and> is_active r) \<and>
      aur_group r = g"
  let ?S = "{r \<in> set ?rows. ?P r}"
  have d: "distinct ?rows" using ut by (simp add: aur_unique_together_def)
  have "count_list (get_responsible_groups db now pm) g = length (filter ?P ?rows)"
    by (simp add: get_responsible_groups_def responsibilities_def count_list_map_filter)
  also have "\<dots> = card ?S"
    using d by (simp add: distinct_length_filter Int_def conj_commute)
  also have "\<dots> = card (aur_administrative_unit ` ?S)"
  proof (rule card_image [symmetric])
    show "inj_on aur_administrative_unit ?S"
    proof (rule inj_onI)
      fix r r' assume "r \<in> ?S" "r' \<in> ?S"
        and "aur_administrative_unit r = aur_administrative_unit r'"
      then show "r = r'" using ut unfolding aur_unique_together_def by force
    qed
  qed
  also have "aur_administrative_unit ` ?S =
     {u \<in> set (admin_units db now pm).
        \<exists>r \<in> set ?rows. aur_administrative_unit r = u \<and> aur_group r = g \<and> is_active r}"
    by auto
  finally show ?thesis .
qed

text \<open>
  In every run the sequence of \<open>import_data\<close> calls is a prefix of groups, users,
  emails when a groups file is given and of users, emails otherwise.  In a complete run
  that is not a dry run each import starts from the store the previous one left.
\<close>

lemma import_calls_in_order:
  "imported (handle rd imp opts s0) \<in>
     (if truthy_path (groups_path opts)
      then {[], [GroupResource], [GroupResource, UserResource]} \<union>
           (if truthy_path (emails_path opts)
            then {[GroupResource, UserResource, EmailAddressResource]} else {})
      else {[], [UserResource]} \<union>
           (if truthy_path (emails_path opts)
            then {[UserResource, EmailAddressResource]} else {})) \<and>
   (users_path opts = Some up \<and> up \<noteq> [] \<and> groups_path opts = Some gp \<and> gp \<noteq> [] \<and>
    emails_path opts = Some ep \<and> ep \<noteq> [] \<and>
    rd gp (opt_format opts) = Some dg \<and> rd up (opt_format opts) = Some du \<and>
    rd ep (opt_format opts) = Some de \<and> \<not> dry_run opts \<longrightarrow>
    handle rd imp opts s0 =
     \<lparr>raised = None,
      committed = snd (imp EmailAddressResource de False
                    (snd (imp UserResource du False
                       (snd (imp GroupResource dg False s0))))),
      imported = [GroupResource, UserResource, EmailAddressResource]\<rparr>)"
  using handle_body_calls [of rd imp opts s0] handle_full_run [of opts up gp ep rd dg du de imp s0]
  by (simp only: handle_imported) blast

section \<open>Claims\<close>

text \<open>
  C2.  Right-open intervals.  For a facility, and likewise for an administrative unit,
  whose identity intervals do not overlap, \<open>get_identity_at_date d\<close> returns the identity
  whose interval \<open>[effective_from, effective_to)\<close> holds \<open>d\<close>, and \<open>None\<close> (a value, the
  functions have no failing branch) when no interval holds \<open>d\<close>.  At \<open>d = effective_from\<close>
  of a non-empty interval the identity itself is returned; at \<open>d = effective_to\<close> it never
  is; an identity with a null \<open>effective_to\<close> is returned at every date from its start on.
\<close>

theorem get_identity_at_date_right_open:
  "(pfi_non_overlapping (pf_identities db f) \<longrightarrow>
      (\<forall>i \<in> set (pf_identities db f).
            in_interval (pfi_effective_from_date i) (pfi_effective_to_date i) d \<longrightarrow>
            pf_get_identity_at_date db f d = Some i) \<and>
      ((\<forall>i \<in> set (pf_identities db f).
            \<not> in_interval (pfi_effective_from_date i) (pfi_effective_to_date i) d) \<longrightarrow>
            pf_get_identity_at_date db f d = None) \<and>
      (\<forall>i \<in> set (pf_identities db f).
            (case pfi_effective_to_date i of None \<Rightarrow> True
             | Some e \<Rightarrow> pfi_effective_from_date i < e) \<longrightarrow>
            pf_get_identity_at_date db f (pfi_effective_from_date i) = Some i) \<and>
      (\<forall>i \<in> set (pf_identities db f). \<forall>e. pfi_effective_to_date i = Some e \<longrightarrow>
            pf_get_identity_at_date db f e \<noteq> Some i) \<and>
      (\<forall>i \<in> set (pf_identities db f).
            pfi_effective_to_date i = None \<and> pfi_effective_from_date i \<le> d \<longrightarrow>
            pf_get_identity_at_date db f d = Some i)) \<and>
   (aui_non_overlapping (au_identities db u) \<longrightarrow>
      (\<forall>i \<in> set (au_identities db u).
            in_interval (aui_effective_from_date i) (aui_effective_to_date i) d \<longrightarrow>
            au_get_identity_at_date db u d = Some i) \<and>
      ((\<forall>i \<in> set (au_identities db u).
            \<not> in_interval (aui_effective_from_date i) (aui_effective_to_date i) d) \<longrightarrow>
            au_get_identity_at_date db u d = None) \<and>
      (\<forall>i \<in> set (au_identities db u).
            (case aui_effective_to_date i of None \<Rightarrow> True
             | Some e \<Rightarrow> aui_effective_from_date i < e) \<longrightarrow>
            au_get_identity_at_date db u (aui_effective_from_date i) = Some i) \<and>
      (\<forall>i \<in> set (au_identities db u). \<forall>e. aui_effective_to_date i = Some e \<longrightarrow>
            au_get_identity_at_date db u e \<noteq> Some i) \<and>
      (\<forall>i \<in> set (au_identities db u).
            aui_effective_to_date i = None \<and> aui_effective_from_date i \<le> d \<longrightarrow>
            au_get_identity_at_date db u d = Some i))"
  using pf_right_open [of db f d] au_right_open [of db u d] by blast

theorem get_identity_at_date_right_open_witness:
  "pfi_non_overlapping (pf_identities example_db richmond) \<and>
   aui_non_overlapping (au_identities example_db dakota) \<and>
   richmond_po \<in> set (pf_identities example_db richmond) \<and>
   in_interval (pfi_effective_from_date richmond_po) (pfi_effective_to_date richmond_po) 679717 \<and>
   pf_get_identity_at_date example_db richmond 679717 = Some richmond_po \<and>
   pf_get_identity_at_date example_db richmond 680233 \<noteq> Some richmond_po \<and>
   dakota_territory \<in> set (au_identities example_db dakota) \<and>
   au_get_identity_at_date example_db dakota 679412 = Some dakota_territory"
proof -
  have 1: "pfi_non_overlapping (pf_identities example_db richmond)"
    by (simp add: pfi_non_overlapping_def intervals_overlap_def in_interval_def
        example_rows pf_identities_def)
  have 2: "aui_non_overlapping (au_identities example_db dakota)"
    by (simp add: aui_non_overlapping_def intervals_overlap_def in_interval_def
        example_rows au_identities_def)
  have 3: "richmond_po \<in> set (pf_identities example_db richmond)"
    by (simp add: example_rows pf_identities_def)
  have 4: "in_interval (pfi_effective_from_date richmond_po)
      (pfi_effective_to_date richmond_po) 679717"
    by (simp add: in_interval_def richmond_po_def)
  have 5: "dakota_territory \<in> set (au_identities example_db dakota)"
    by (simp add: example_rows au_identities_def)
  have 6: "pfi_effective_to_date richmond_po = Some 680233"
    by (simp add: richmond_po_def)
  have 7: "case aui_effective_to_date dakota_territory of None \<Rightarrow> True
             | Some e \<Rightarrow> aui_effective_from_date dakota_territory < e"
    by (simp add: dakota_territory_def)
  have 8: "aui_effective_from_date dakota_territory = 679412"
    by (simp add: dakota_territory_def)
  from get_identity_at_date_right_open [of example_db richmond 679717 dakota] 1 2 3 4 5 6 7 8
  show ?thesis by metis
qed

text \<open>
  C10.  \<open>get_coordinates\<close> returns the identity's own pair only when both of its
  coordinates are truthy; when either is null or exactly zero it returns the parent
  facility's pair, so a zero coordinate counts as absent.
\<close>

theorem get_coordinates_zero_is_absent:
  "(\<forall>la lo. pfi_latitude i = Some la \<and> pfi_longitude i = Some lo \<and> la \<noteq> 0 \<and> lo \<noteq> 0 \<longrightarrow>
      get_coordinates f i = (Some la, Some lo)) \<and>
   (pfi_latitude i = None \<or> pfi_latitude i = Some 0 \<or>
    pfi_longitude i = None \<or> pfi_longitude i = Some 0 \<longrightarrow>
      get_coordinates f i = (pf_latitude f, pf_longitude f))"
  by (auto simp: get_coordinates_def truthy_decimal_def)

theorem get_coordinates_zero_is_absent_witness:
  "pfi_latitude richmond_branch = Some 0 \<and>
   get_coordinates richmond richmond_branch = (Some 375407000, Some (- 774360000)) \<and>
   get_coordinates richmond
     (richmond_branch\<lparr>pfi_latitude := Some 375000000\<rparr>) =
     (Some 375000000, Some (- 774000000))"
proof -
  have 1: "pfi_latitude richmond_branch = Some 0"
    by (simp add: richmond_branch_def)
  have 2: "pfi_latitude (richmond_branch\<lparr>pfi_latitude := Some 375000000\<rparr>) = Some 375000000 \<and>
      pfi_longitude (richmond_branch\<lparr>pfi_latitude := Some 375000000\<rparr>) = Some (- 774000000) \<and>
      (375000000::int) \<noteq> 0 \<and> (- 774000000::int) \<noteq> 0"
    by (simp add: richmond_branch_def)
  have 3: "(pf_latitude richmond, pf_longitude richmond) =
      (Some 375407000, Some (- 774360000))"
    by (simp add: richmond_def)
  from get_coordinates_zero_is_absent [of richmond_branch richmond] 1 3
  have a: "get_coordinates richmond richmond_branch = (Some 375407000, Some (- 774360000))"
    by simp
  from get_coordinates_zero_is_absent
    [of "richmond_branch\<lparr>pfi_latitude := Some 375000000\<rparr>" richmond] 2
  have b: "get_coordinates richmond (richmond_branch\<lparr>pfi_latitude := Some 375000000\<rparr>) =
      (Some 375000000, Some (- 774000000))"
    by blast
  from 1 a b show ?thesis by simp
qed


text \<open>
  C1.  Tie-break between overlapping identities.  At the facility whose two identities
  are both open, \<open>get_identity_at_date\<close> and \<open>get_current_identity\<close> return "Richmond PO",
  the identity with the earlier start, in both storage orders, although both intervals
  hold the date and "Richmond Branch" starts later.
\<close>

theorem facility_overlap_returns_earlier_start:
  "pf_get_identity_at_date overlap_db richmond 682639 = Some richmond_po_open \<and>
   pf_get_identity_at_date overlap_db_reversed richmond 682639 = Some richmond_po_open \<and>
   pf_get_current_identity overlap_db richmond = Some richmond_po_open \<and>
   pf_get_current_identity overlap_db_reversed richmond = Some richmond_po_open \<and>
   in_interval (pfi_effective_from_date richmond_po_open)
     (pfi_effective_to_date richmond_po_open) 682639 \<and>
   in_interval (pfi_effective_from_date richmond_branch)
     (pfi_effective_to_date richmond_branch) 682639 \<and>
   pfi_effective_from_date richmond_po_open < pfi_effective_from_date richmond_branch"
  by (simp add: example_rows scenario_rows resolution_defs in_interval_def)

text \<open>
  C5.  A request on a postmark is permitted exactly when its method is GET, HEAD or
  OPTIONS or the user's groups and the postmark's responsible groups share a member.
  A read is permitted on every object.  With no responsible group, every other request
  on the postmark is refused, whoever the user is.
\<close>

theorem postmark_mutation_needs_shared_group:
  "has_object_permission db now req (PostmarkObject p) =
     (http_method req \<in> {''GET'', ''HEAD'', ''OPTIONS''} \<or>
      set (user_groups (request_user req)) \<inter> set (get_responsible_groups db now p) \<noteq> {}) \<and>
   (http_method req \<in> {''GET'', ''HEAD'', ''OPTIONS''} \<longrightarrow>
      has_object_permission db now req obj) \<and>
   (http_method req \<notin> {''GET'', ''HEAD'', ''OPTIONS''} \<and>
    get_responsible_groups db now p = [] \<longrightarrow>
      \<not> has_object_permission db now req (PostmarkObject p))"
  by (auto simp: has_object_permission_def list_ex_iff)

theorem postmark_mutation_needs_shared_group_witness:
  "has_object_permission shared_group_db noon_2025 (put_by curator)
     (PostmarkObject richmond_postmark) \<and>
   \<not> has_object_permission shared_group_db noon_2025 (put_by visitor)
     (PostmarkObject richmond_postmark) \<and>
   http_method (put_by curator) \<notin> {''GET'', ''HEAD'', ''OPTIONS''} \<and>
   get_responsible_groups example_db noon_2025 richmond_postmark = [] \<and>
   \<not> has_object_permission example_db noon_2025 (put_by curator)
     (PostmarkObject richmond_postmark)"
proof -
  have g: "get_responsible_groups shared_group_db noon_2025 richmond_postmark = [7, 7]"
    by (simp add: example_rows scenario_rows responsible_defs)
  have e: "get_responsible_groups example_db noon_2025 richmond_postmark = []"
    by (simp add: example_rows scenario_rows responsible_defs)
  have m: "http_method (put_by curator) \<notin> {''GET'', ''HEAD'', ''OPTIONS''}"
    by (simp add: put_by_def)
  have a: "has_object_permission shared_group_db noon_2025 (put_by curator)
      (PostmarkObject richmond_postmark)"
    using postmark_mutation_needs_shared_group
      [of shared_group_db noon_2025 "put_by curator" richmond_postmark]
    by (simp add: g put_by_def curator_def)
  have b: "\<not> has_object_permission shared_group_db noon_2025 (put_by visitor)
      (PostmarkObject richmond_postmark)"
    using postmark_mutation_needs_shared_group
      [of shared_group_db noon_2025 "put_by visitor" richmond_postmark]
    by (simp add: g put_by_def visitor_def)
  have c: "\<not> has_object_permission example_db noon_2025 (put_by curator)
      (PostmarkObject richmond_postmark)"
    using postmark_mutation_needs_shared_group
      [of example_db noon_2025 "put_by curator" richmond_postmark] m e
    by blast
  from a b c m e show ?thesis by blast
qed

text \<open>
  C7.  The two temporal tracks are independent.  Saving new descriptive fields (name,
  type, operational flag) of a facility identity changes neither the affiliations
  selected for a postmark, nor its responsible groups, nor the unit identity an
  affiliation resolves to, nor the unit name shown for a postmark.  Saving a new or a
  modified affiliation changes neither \<open>get_identity_at_date\<close> nor
  \<open>get_current_identity\<close> of any facility.
\<close>

theorem tracks_are_independent:
  "affiliations (save_facility_description db k name type operational) now pm =
     affiliations db now pm \<and>
   get_responsible_groups (save_facility_description db k name type operational) now pm =
     get_responsible_groups db now pm \<and>
   get_administrative_unit_identity (save_facility_description db k name type operational) a =
     get_administrative_unit_identity db a \<and>
   get_admin_unit (save_facility_description db k name type operational) pm =
     get_admin_unit db pm \<and>
   pf_get_identity_at_date (save_affiliation db a) f d = pf_get_identity_at_date db f d \<and>
   pf_get_current_identity (save_affiliation db a) f = pf_get_current_identity db f"
  by (simp add: responsible_defs save_facility_description_def save_affiliation_def
      unit_identity_ignores_facility_description [unfolded save_facility_description_def]
      admin_unit_ignores_facility_description [unfolded save_facility_description_def]
      pf_get_identity_at_date_def pf_get_current_identity_def pf_identities_def)


text \<open>
  C6.  Two modes of unit-name resolution.  A unit is named \<open>N1\<close> from \<open>D1\<close> and renamed
  \<open>N2\<close> at \<open>D2\<close>; an affiliation to it begins in \<open>[D1, D2)\<close> (at \<open>D1\<close> in particular).
  The historical mode, \<open>get_administrative_unit_identity\<close> and the affiliation
  serializer's name, resolves at the affiliation's start and yields \<open>N1\<close>.  The current
  mode, \<open>get_current_identity\<close> and the responsibility serializer's name, yields \<open>N2\<close>,
  as does resolving at any \<open>today\<close> after \<open>D2\<close>.  They are separate functions.
\<close>

theorem two_mode_unit_name:
  assumes ids: "set (au_identities db u) = {i1, i2}"
    and i1: "aui_effective_from_date i1 = D1" "aui_effective_to_date i1 = Some D2"
      "unit_name i1 = N1"
    and i2: "aui_effective_from_date i2 = D2" "aui_effective_to_date i2 = None"
      "unit_name i2 = N2"
    and a: "administrative_unit_by_pk db (ja_administrative_unit a) = Inr u"
      "D1 \<le> ja_effective_from_date a" "ja_effective_from_date a < D2"
    and r: "administrative_unit_by_pk db (aur_administrative_unit r) = Inr u"
    and today: "D2 < today"
  shows "get_administrative_unit_identity db a = Inr (Some i1) \<and>
         ja_get_administrative_unit_name db a = Inr (Some N1) \<and>
         au_get_current_identity db u = Some i2 \<and>
         au_get_identity_at_date db u today = Some i2 \<and>
         aur_get_administrative_unit_name db r = Inr N2"
proof -
  have m1: "i1 \<in> set (au_identities db u)" and m2: "i2 \<in> set (au_identities db u)"
    by (simp_all add: ids)
  have no: "aui_non_overlapping (au_identities db u)"
  proof (rule aui_non_overlapping_pair [OF ids])
    show "\<not> intervals_overlap (aui_effective_from_date i1) (aui_effective_to_date i1)
            (aui_effective_from_date i2) (aui_effective_to_date i2)"
      using a(2,3) by (simp add: i1 i2 intervals_overlap_def in_interval_def)
    show "\<not> intervals_overlap (aui_effective_from_date i2) (aui_effective_to_date i2)
            (aui_effective_from_date i1) (aui_effective_to_date i1)"
      using a(2,3) by (simp add: i1 i2 intervals_overlap_def in_interval_def)
  qed
  have "in_interval (aui_effective_from_date i1) (aui_effective_to_date i1)
      (ja_effective_from_date a)"
    using a(2,3) by (simp add: i1 in_interval_def)
  with no m1 have hist: "au_get_identity_at_date db u (ja_effective_from_date a) = Some i1"
    by (rule au_get_identity_at_date_unique)
  have "\<forall>j \<in> set (au_identities db u). aui_effective_to_date j = None \<longrightarrow> j = i2"
    unfolding ids using i1(2) by auto
  with m2 i2(2) have cur: "au_get_current_identity db u = Some i2"
    by (rule au_get_current_identity_only_open)
  have "in_interval (aui_effective_from_date i2) (aui_effective_to_date i2) today"
    using today by (simp add: i2 in_interval_def)
  with no m2 have now: "au_get_identity_at_date db u today = Some i2"
    by (rule au_get_identity_at_date_unique)
  have g: "get_administrative_unit_identity db a = Inr (Some i1)"
    by (simp add: get_administrative_unit_identity_def a(1) hist)
  have n: "ja_get_administrative_unit_name db a = Inr (Some N1)"
    by (simp add: ja_get_administrative_unit_name_def g i1(3))
  have m: "aur_get_administrative_unit_name db r = Inr N2"
    by (simp add: aur_get_administrative_unit_name_def r cur i2(3))
  from g n cur now m show ?thesis by simp
qed


theorem two_mode_unit_name_witness:
  "set (au_identities shared_group_db dakota) = {dakota_territory, south_dakota} \<and>
   administrative_unit_by_pk shared_group_db (ja_administrative_unit affiliation_dakota)
     = Inr dakota \<and>
   administrative_unit_by_pk shared_group_db (aur_administrative_unit responsibility_dakota)
     = Inr dakota \<and>
   ja_get_administrative_unit_name shared_group_db affiliation_dakota
     = Inr (Some ''Dakota Territory'') \<and>
   aur_get_administrative_unit_name shared_group_db responsibility_dakota
     = Inr ''South Dakota'' \<and>
   au_get_identity_at_date shared_group_db dakota 739572 = Some south_dakota"
proof -
  have 1: "set (au_identities shared_group_db dakota) = {dakota_territory, south_dakota}"
    by (simp add: shared_group_db_def example_db_def dakota_def dakota_territory_def
        south_dakota_def au_identities_def)
  have 2: "aui_effective_from_date dakota_territory = 679412"
    "aui_effective_to_date dakota_territory = Some 689884"
    "unit_name dakota_territory = ''Dakota Territory''"
    by (simp_all add: dakota_territory_def)
  have 3: "aui_effective_from_date south_dakota = 689884"
    "aui_effective_to_date south_dakota = None"
    "unit_name south_dakota = ''South Dakota''"
    by (simp_all add: south_dakota_def)
  have 4: "administrative_unit_by_pk shared_group_db (ja_administrative_unit affiliation_dakota)
     = Inr dakota"
    by (simp add: shared_group_db_def example_db_def dakota_def nebraska_def
        affiliation_dakota_def administrative_unit_by_pk_def)
  have 5: "679412 \<le> ja_effective_from_date affiliation_dakota"
    "ja_effective_from_date affiliation_dakota < 689884"
    by (simp_all add: affiliation_dakota_def)
  have 6: "administrative_unit_by_pk shared_group_db
      (aur_administrative_unit responsibility_dakota) = Inr dakota"
    by (simp add: shared_group_db_def example_db_def dakota_def nebraska_def
        responsibility_dakota_def administrative_unit_by_pk_def)
  have 7: "(689884::int) < 739572" by simp
  from two_mode_unit_name [OF 1 2 3 4 5 6 7] 1 4 6 show ?thesis by simp
qed


text \<open>
  C4.  Affiliations selected for the responsible groups.  At noon of 2025-11-17 the only
  affiliation of the postmark's facility identity starts on 2030-01-01; it is selected
  all the same, and group 7 is returned.
\<close>

theorem future_affiliation_contributes_group:
  "affiliations future_db noon_2025 richmond_postmark = [affiliation_future] \<and>
   \<not> midnight (ja_effective_from_date affiliation_future) \<le> noon_2025 \<and>
   get_responsible_groups future_db noon_2025 richmond_postmark = [7]"
  by (simp add: example_rows scenario_rows responsible_defs)

text \<open>
  C8.  Atomicity of a restore.  In the run \<open>restore_auth users.csv groups.csv\<close> on
  \<open>example_files\<close> the users import reports an error (its second row is invalid) and
  saves no user, no exception leaves \<open>handle\<close>, and the transaction commits the two
  groups: rows of the batch are committed although a row of the batch failed.
\<close>

theorem restore_commits_groups_beside_failed_users:
  "example_files ''users.csv'' ''csv'' = Some [Valid 10 [1], Invalid, Valid 11 [2]] \<and>
   fst (import_rows UserResource [Valid 10 [1], Invalid, Valid 11 [2]] False
          (snd (import_rows GroupResource [Valid 1 [], Valid 2 []] False empty_store))) \<and>
   raised (handle example_files import_rows example_options empty_store) = None \<and>
   committed (handle example_files import_rows example_options empty_store) GroupResource
     = [1, 2] \<and>
   committed (handle example_files import_rows example_options empty_store) UserResource
     = [] \<and>
   committed (handle example_files import_rows example_options empty_store) \<noteq> empty_store"
proof -
  have h: "handle example_files import_rows example_options empty_store =
    \<lparr>raised = None,
     committed = empty_store(GroupResource := [1, 2]),
     imported = [GroupResource, UserResource]\<rparr>"
    by (simp add: handle_defs import_rows_def example_files_def example_options_def
        empty_store_def fun_eq_iff)
  have "empty_store(GroupResource := [1, 2]) \<noteq> empty_store"
    by (auto simp: empty_store_def fun_eq_iff)
  with h show ?thesis
    by (simp add: empty_store_def import_rows_def example_files_def)
qed

text \<open>
  C9.  Seeding order.  The groups import does run before the users import, but in the
  run \<open>restore_auth users.csv groups.csv\<close> on \<open>failed_groups_files\<close> it reports an
  error and saves no group, \<open>handle\<close> goes on to the users import, and the transaction
  commits user 10 while group 1, which the user row refers to and which is a row of the
  same batch, is absent from the store.
\<close>

theorem user_saved_while_its_group_is_absent:
  "failed_groups_files ''groups.csv'' ''csv'' = Some [Valid 1 [], Invalid] \<and>
   failed_groups_files ''users.csv'' ''csv'' = Some [Valid 10 [1]] \<and>
   fst (import_rows GroupResource [Valid 1 [], Invalid] False empty_store) \<and>
   raised (handle failed_groups_files import_rows example_options empty_store) = None \<and>
   imported (handle failed_groups_files import_rows example_options empty_store) =
     [GroupResource, UserResource] \<and>
   committed (handle failed_groups_files import_rows example_options empty_store) UserResource
     = [10] \<and>
   committed (handle failed_groups_files import_rows example_options empty_store) GroupResource
     = []"
proof -
  have h: "handle failed_groups_files import_rows example_options empty_store =
    \<lparr>raised = None,
     committed = empty_store(UserResource := [10]),
     imported = [GroupResource, UserResource]\<rparr>"
    by (simp add: handle_defs import_rows_def failed_groups_files_def example_options_def
        empty_store_def fun_eq_iff)
  from h show ?thesis
    by (simp add: empty_store_def import_rows_def failed_groups_files_def)
qed

text \<open>
  C3.  Responsible groups of a postmark.  As stated, with deduplication, the claim fails:
  the facility identity below has the two governing units 1 and 2, group 7 is
  responsible for both, and the returned list holds group 7 twice.
\<close>

theorem shared_group_listed_twice:
  "set (admin_units shared_group_db noon_2025 richmond_postmark) = {1, 2} \<and>
   get_responsible_groups shared_group_db noon_2025 richmond_postmark = [7, 7] \<and>
   \<not> distinct (get_responsible_groups shared_group_db noon_2025 richmond_postmark)"
  by (simp add: example_rows scenario_rows responsible_defs insert_commute)

text \<open>
  C3, amended.  \<open>get_responsible_groups\<close> returns the empty list when the governing
  units have no active responsibility row.  Its members are exactly the groups of the
  active responsibility rows of the governing units, one list entry per row: under
  the table's uniqueness constraint a group occurs as many times as there are governing
  units with an active responsibility for it.
\<close>

theorem responsible_groups_one_per_row:
  "((\<forall>r \<in> set (AdministrativeUnitResponsibilities db).
       aur_administrative_unit r \<in> set (admin_units db now pm) \<longrightarrow> \<not> is_active r) \<longrightarrow>
     get_responsible_groups db now pm = []) \<and>
   set (get_responsible_groups db now pm) =
     {aur_group r | r. r \<in> set (AdministrativeUnitResponsibilities db) \<and> is_active r \<and>
        aur_administrative_unit r \<in> set (admin_units db now pm)} \<and>
   (aur_unique_together (AdministrativeUnitResponsibilities db) \<longrightarrow>
     count_list (get_responsible_groups db now pm) g =
       card {u \<in> set (admin_units db now pm).
          \<exists>r \<in> set (AdministrativeUnitResponsibilities db).
            aur_administrative_unit r = u \<and> aur_group r = g \<and> is_active r})"
  using responsible_groups_empty [of db now pm] responsible_groups_set [of db now pm]
    responsible_groups_count [of db now pm g]
  by blast


theorem responsible_groups_one_per_row_witness:
  "aur_unique_together (AdministrativeUnitResponsibilities shared_group_db) \<and>
   count_list (get_responsible_groups shared_group_db noon_2025 richmond_postmark) 7 = 2 \<and>
   set (get_responsible_groups shared_group_db noon_2025 richmond_postmark) = {7} \<and>
   AdministrativeUnitResponsibilities example_db = [] \<and>
   get_responsible_groups example_db noon_2025 richmond_postmark = []"
proof -
  have z: "AdministrativeUnitResponsibilities example_db = []"
    by (simp add: example_db_def)
  have u: "aur_unique_together (AdministrativeUnitResponsibilities shared_group_db)"
    by (simp add: aur_unique_together_def shared_group_db_def example_db_def
        responsibility_dakota_def responsibility_nebraska_def)
  have a: "set (admin_units shared_group_db noon_2025 richmond_postmark) = {1, 2}"
    by (simp add: example_rows scenario_rows responsible_defs insert_commute)
  have k: "{u \<in> {1, 2}.
       \<exists>r \<in> set (AdministrativeUnitResponsibilities shared_group_db).
         aur_administrative_unit r = u \<and> aur_group r = 7 \<and> is_active r} = {1, 2}"
    by (auto simp: shared_group_db_def example_db_def
        responsibility_dakota_def responsibility_nebraska_def)
  have e: "\<forall>r \<in> set (AdministrativeUnitResponsibilities example_db).
       aur_administrative_unit r \<in> set (admin_units example_db noon_2025 richmond_postmark)
       \<longrightarrow> \<not> is_active r"
    by (simp add: example_db_def)
  have c: "count_list (get_responsible_groups shared_group_db noon_2025 richmond_postmark) 7 = 2"
  proof -
    have "count_list (get_responsible_groups shared_group_db noon_2025 richmond_postmark) 7 =
        card {u \<in> set (admin_units shared_group_db noon_2025 richmond_postmark).
          \<exists>r \<in> set (AdministrativeUnitResponsibilities shared_group_db).
            aur_administrative_unit r = u \<and> aur_group r = 7 \<and> is_active r}"
      using responsible_groups_one_per_row [of shared_group_db noon_2025 richmond_postmark 7] u
      by blast
    also have "\<dots> = card {1, 2 :: nat}" by (simp only: a k)
    also have "\<dots> = 2" by simp
    finally show ?thesis .
  qed
  have t: "set (get_responsible_groups shared_group_db noon_2025 richmond_postmark) = {7}"
    by (simp add: example_rows scenario_rows responsible_defs)
  have n: "get_responsible_groups example_db noon_2025 richmond_postmark = []"
    using responsible_groups_one_per_row [of example_db noon_2025 richmond_postmark 7] e
    by blast
  from u c t z n show ?thesis by blast
qed


end
